theory Spec2Isabelle
  imports Main "HOL-Library.Word"
begin

section \<open>NexaCtrl: frame encoder and transmitter\<close>

text \<open>
  A shallow embedding of \<^verbatim>\<open>firmware/NexaCtrl.cpp\<close>. The library targets the
  32-bit platform of \<^verbatim>\<open>application.h\<close>: \<^verbatim>\<open>int\<close>, \<^verbatim>\<open>unsigned int\<close> and
  \<^verbatim>\<open>unsigned long\<close> are 32 bits wide. Values the code computes with
  (\<^verbatim>\<open>unsigned long integer\<close> of \<^verbatim>\<open>itob\<close>, the identifiers, the pins) are
  \<open>32 word\<close>; loop counters, array indices and lengths never exceed 72 and are
  \<open>nat\<close>; pulse durations are only stored and replayed and are \<open>int\<close>.
\<close>

subsection \<open>Constants\<close>

definition kPulseHigh :: int where "kPulseHigh = 275"
definition kPulseLow0 :: int where "kPulseLow0 = 275"
definition kPulseLow1 :: int where "kPulseLow1 = 1225"

definition kLowPulseLength :: nat where "kLowPulseLength = 64"

definition kControllerIdOffset :: nat where "kControllerIdOffset = 0"
definition kControllerIdLength :: nat where "kControllerIdLength = 26"
definition kGroupFlagOffset :: nat where "kGroupFlagOffset = 26"
definition kOnFlagOffset :: nat where "kOnFlagOffset = 27"
definition kDeviceIdOffset :: nat where "kDeviceIdOffset = 28"
definition kDeviceIdLength :: nat where "kDeviceIdLength = 4"
definition kDimOffset :: nat where "kDimOffset = 32"
definition kDimLength :: nat where "kDimLength = 4"

subsection \<open>Bit conversion utilities\<close>

text \<open>\<^verbatim>\<open>unsigned long power2(int power) { return 1 << power; }\<close>\<close>

definition power2 :: "nat \<Rightarrow> 32 word" where
  "power2 p = push_bit p 1"

text \<open>
  \<^verbatim>\<open>itob(bits, integer, length)\<close>: the loop over \<open>i\<close>, writing \<open>bits[i]\<close> and
  updating the local copy of \<open>integer\<close>. The division is the unsigned one. Every
  caller passes an array of exactly \<open>length\<close> entries, with \<open>length\<close> 26 or 4, so
  that each store is inside the array and each shift of \<open>power2\<close> is by less than 26.
\<close>

function itob_for :: "nat \<Rightarrow> bool list \<Rightarrow> 32 word \<Rightarrow> nat \<Rightarrow> bool list" where
  "itob_for i bits integer len =
     (if i < len then
        (if integer div power2 (len - 1 - i) = 1
         then itob_for (i + 1) (bits[i := True]) (integer - power2 (len - 1 - i)) len
         else itob_for (i + 1) (bits[i := False]) integer len)
      else bits)"
  by pat_completeness auto
termination
  by (relation "measure (\<lambda>(i, bits, integer, len). len - i)") auto

definition itob :: "bool list \<Rightarrow> 32 word \<Rightarrow> nat \<Rightarrow> bool list" where
  "itob bits integer len = itob_for 0 bits integer len"

subsection \<open>The object and its pulse buffer\<close>

type_synonym pin = "32 word"

text \<open>
  The members of the class; \<^verbatim>\<open>tx_pin_\<close>, \<^verbatim>\<open>rx_pin_\<close> and \<^verbatim>\<open>led_pin_\<close> are
  \<open>tx_pin_m\<close>, \<open>rx_pin_m\<close> and \<open>led_pin_m\<close> here (a name cannot end in an
  underscore). \<open>low_pulse_array\<close> is the pointer member: \<open>None\<close> when it points to
  no buffer, \<open>Some arr\<close> when it points to the allocated array \<open>arr\<close>.
\<close>

record nexa =
  tx_pin_m :: pin
  rx_pin_m :: pin
  led_pin_m :: pin
  low_pulse_array :: "int list option"

text \<open>
  An access through a pointer to no buffer, or at an index outside the allocated
  array, is undefined behaviour in the source; the model makes it an error value.
\<close>

datatype error = NullBuffer | OutOfBounds nat

text \<open>\<^verbatim>\<open>low_pulse_array[idx] = v\<close> and \<^verbatim>\<open>low_pulse_array[idx]\<close>.\<close>

definition store_pulse :: "nat \<Rightarrow> int \<Rightarrow> nexa \<Rightarrow> error + nexa" where
  "store_pulse idx v this =
     (case low_pulse_array this of
        None \<Rightarrow> Inl NullBuffer
      | Some arr \<Rightarrow>
          if idx < length arr
          then Inr (this\<lparr>low_pulse_array := Some (arr[idx := v])\<rparr>)
          else Inl (OutOfBounds idx))"

definition load_pulse :: "nat \<Rightarrow> nexa \<Rightarrow> error + int" where
  "load_pulse idx this =
     (case low_pulse_array this of
        None \<Rightarrow> Inl NullBuffer
      | Some arr \<Rightarrow> if idx < length arr then Inr (arr ! idx) else Inl (OutOfBounds idx))"

text \<open>Sequencing of two steps that may fail: the second runs on the first's result.\<close>

definition and_then :: "error + 'a \<Rightarrow> ('a \<Rightarrow> error + 'b) \<Rightarrow> error + 'b" where
  "and_then m f = (case m of Inl e \<Rightarrow> Inl e | Inr x \<Rightarrow> f x)"

subsection \<open>Frame encoder\<close>

definition SetBit :: "nat \<Rightarrow> bool \<Rightarrow> nexa \<Rightarrow> error + nexa" where
  "SetBit bit_index v this =
     (if \<not> v then
        and_then (store_pulse (bit_index * 2) kPulseLow0 this)
          (store_pulse (bit_index * 2 + 1) kPulseLow1)
      else
        and_then (store_pulse (bit_index * 2) kPulseLow1 this)
          (store_pulse (bit_index * 2 + 1) kPulseLow0))"

text \<open>
  The loop \<^verbatim>\<open>for (bit = 0; bit < len; bit++) SetBit(offset + bit, bits[bit]);\<close>
  that \<^verbatim>\<open>SetControllerBits\<close>, \<^verbatim>\<open>SetDeviceBits\<close> and \<^verbatim>\<open>DeviceDim\<close> each contain
  (the counter \<^verbatim>\<open>bit\<close> is \<open>bitno\<close> here).
\<close>

function SetBit_for :: "nat \<Rightarrow> nat \<Rightarrow> nat \<Rightarrow> bool list \<Rightarrow> nexa \<Rightarrow> error + nexa" where
  "SetBit_for bitno len offset bits this =
     (if bitno < len then
        (case SetBit (offset + bitno) (bits ! bitno) this of
           Inl e \<Rightarrow> Inl e
         | Inr this' \<Rightarrow> SetBit_for (bitno + 1) len offset bits this')
      else Inr this)"
  by pat_completeness auto
termination
  by (relation "measure (\<lambda>(bitno, len, offset, bits, this). len - bitno)") auto

text \<open>
  The local arrays \<^verbatim>\<open>bool controller[26]\<close>, \<^verbatim>\<open>bool device[4]\<close> and
  \<^verbatim>\<open>bool dim_bits[4]\<close> are not initialised in the source; \<open>itob\<close> overwrites
  every entry, so that its result does not depend on what the array held (lemma
  \<open>itob_cases\<close> below), and the model starts them at \<open>False\<close>.
\<close>

definition SetControllerBits :: "32 word \<Rightarrow> nexa \<Rightarrow> error + nexa" where
  "SetControllerBits controller_id this =
     (let controller = itob (replicate kControllerIdLength False) controller_id kControllerIdLength
      in SetBit_for 0 kControllerIdLength kControllerIdOffset controller this)"

definition SetDeviceBits :: "32 word \<Rightarrow> nexa \<Rightarrow> error + nexa" where
  "SetDeviceBits device_id this =
     (let ldevice_id = device_id;
          device = itob (replicate kDeviceIdLength False) ldevice_id kDeviceIdLength
      in SetBit_for 0 kDeviceIdLength kDeviceIdOffset device this)"

subsection \<open>Transmitter\<close>

datatype pin_mode = OUTPUT | INPUT

datatype pin_level = LOW | HIGH

text \<open>The calls into the platform, in the order the code makes them.\<close>

datatype event =
    PinMode pin pin_mode
  | NoInterrupts
  | Interrupts
  | PinSetFast pin
  | PinResetFast pin
  | DigitalWrite pin pin_level
  | DelayMicroseconds int

definition TransmitLatch1 :: "nexa \<Rightarrow> event list" where
  "TransmitLatch1 this =
     [PinSetFast (tx_pin_m this), DelayMicroseconds kPulseLow0,
      PinResetFast (tx_pin_m this), DelayMicroseconds 9900]"

definition TransmitLatch2 :: "nexa \<Rightarrow> event list" where
  "TransmitLatch2 this =
     [PinSetFast (tx_pin_m this), DelayMicroseconds kPulseLow0,
      PinResetFast (tx_pin_m this), DelayMicroseconds 2675]"

text \<open>The inner loop of \<^verbatim>\<open>Transmit\<close> over \<open>pulse_count\<close>.\<close>

function Transmit_pulses :: "nat \<Rightarrow> nat \<Rightarrow> nexa \<Rightarrow> error + event list" where
  "Transmit_pulses pulse_count pulse_length this =
     (if pulse_count < pulse_length then
        (case load_pulse pulse_count this of
           Inl e \<Rightarrow> Inl e
         | Inr d \<Rightarrow>
            (case Transmit_pulses (pulse_count + 1) pulse_length this of
               Inl e \<Rightarrow> Inl e
             | Inr rest \<Rightarrow>
                 Inr ([PinSetFast (tx_pin_m this), DelayMicroseconds kPulseHigh,
                       PinResetFast (tx_pin_m this), DelayMicroseconds d] @ rest)))
      else Inr [])"
  by pat_completeness auto
termination
  by (relation "measure (\<lambda>(pulse_count, pulse_length, this). pulse_length - pulse_count)") auto

text \<open>The outer loop of \<^verbatim>\<open>Transmit\<close> over \<open>transmit_count\<close>.\<close>

function Transmit_for :: "nat \<Rightarrow> nat \<Rightarrow> nexa \<Rightarrow> error + event list" where
  "Transmit_for transmit_count pulse_length this =
     (if transmit_count < 2 then
        (case Transmit_pulses 0 pulse_length this of
           Inl e \<Rightarrow> Inl e
         | Inr pulses \<Rightarrow>
            (case Transmit_for (transmit_count + 1) pulse_length this of
               Inl e \<Rightarrow> Inl e
             | Inr rest \<Rightarrow>
                 Inr ((if 0 < led_pin_m this then [PinSetFast (led_pin_m this)] else [])
                      @ TransmitLatch1 this
                      @ TransmitLatch2 this
                      @ pulses
                      @ TransmitLatch2 this
                      @ (if 0 < led_pin_m this then [DigitalWrite (led_pin_m this) LOW] else [])
                      @ [DelayMicroseconds 10000]
                      @ rest)))
      else Inr [])"
  by pat_completeness auto
termination
  by (relation "measure (\<lambda>(transmit_count, pulse_length, this). 2 - transmit_count)") auto

definition Transmit :: "nat \<Rightarrow> nexa \<Rightarrow> error + event list" where
  "Transmit pulse_length this =
     (case Transmit_for 0 pulse_length this of
        Inl e \<Rightarrow> Inl e
      | Inr body \<Rightarrow> Inr ([NoInterrupts] @ body @ [Interrupts]))"

subsection \<open>Commands\<close>

text \<open>
  A command returns the object with its rewritten buffer and the platform calls it
  made, or the error of its first undefined access.
\<close>

definition transmitted :: "nat \<Rightarrow> nexa \<Rightarrow> error + nexa \<times> event list" where
  "transmitted pulse_length this =
     (case Transmit pulse_length this of Inl e \<Rightarrow> Inl e | Inr ev \<Rightarrow> Inr (this, ev))"

definition DeviceOn :: "32 word \<Rightarrow> 32 word \<Rightarrow> nexa \<Rightarrow> error + nexa \<times> event list" where
  "DeviceOn controller_id device_id this =
     and_then (SetControllerBits controller_id this) (\<lambda>this.
     and_then (SetBit kGroupFlagOffset False this) (\<lambda>this.
     and_then (SetBit kOnFlagOffset True this) (\<lambda>this.
     and_then (SetDeviceBits device_id this) (\<lambda>this.
     transmitted kLowPulseLength this))))"

definition DeviceOff :: "32 word \<Rightarrow> 32 word \<Rightarrow> nexa \<Rightarrow> error + nexa \<times> event list" where
  "DeviceOff controller_id device_id this =
     and_then (SetControllerBits controller_id this) (\<lambda>this.
     and_then (SetBit kGroupFlagOffset False this) (\<lambda>this.
     and_then (SetBit kOnFlagOffset False this) (\<lambda>this.
     and_then (SetDeviceBits device_id this) (\<lambda>this.
     transmitted kLowPulseLength this))))"

text \<open>
  \<^verbatim>\<open>dim_level *= (15/100);\<close> multiplies the unsigned \<open>dim_level\<close> by the quotient of
  the two \<^verbatim>\<open>int\<close> literals.
\<close>

definition DeviceDim :: "32 word \<Rightarrow> 32 word \<Rightarrow> 32 word \<Rightarrow> nexa \<Rightarrow> error + nexa \<times> event list" where
  "DeviceDim controller_id device_id dim_level this =
     (let dim_level = dim_level * word_of_int ((15 :: int) div 100) in
      and_then (SetControllerBits controller_id this) (\<lambda>this.
      and_then (SetBit kGroupFlagOffset False this) (\<lambda>this.
      and_then (store_pulse (kOnFlagOffset * 2) kPulseLow0 this) (\<lambda>this.
      and_then (store_pulse (kOnFlagOffset * 2 + 1) kPulseLow0 this) (\<lambda>this.
      and_then (SetDeviceBits device_id this) (\<lambda>this.
      let dim_bits = itob (replicate kDimLength False) dim_level kDimLength in
      and_then (SetBit_for 0 kDimLength kDimOffset dim_bits this) (\<lambda>this.
      transmitted (kLowPulseLength + kDimLength * 2) this)))))))"

definition GroupOn :: "32 word \<Rightarrow> nexa \<Rightarrow> error + nexa \<times> event list" where
  "GroupOn controller_id this =
     (let device_id = 0 in
      and_then (SetControllerBits controller_id this) (\<lambda>this.
      and_then (SetDeviceBits device_id this) (\<lambda>this.
      and_then (SetBit kGroupFlagOffset True this) (\<lambda>this.
      and_then (SetBit kOnFlagOffset True this) (\<lambda>this.
      transmitted kLowPulseLength this)))))"

definition GroupOff :: "32 word \<Rightarrow> nexa \<Rightarrow> error + nexa \<times> event list" where
  "GroupOff controller_id this =
     (let device_id = 0 in
      and_then (SetControllerBits controller_id this) (\<lambda>this.
      and_then (SetDeviceBits device_id this) (\<lambda>this.
      and_then (SetBit kGroupFlagOffset True this) (\<lambda>this.
      and_then (SetBit kOnFlagOffset False this) (\<lambda>this.
      transmitted kLowPulseLength this)))))"

subsection \<open>Constructors\<close>

text \<open>
  \<^verbatim>\<open>calloc(n, sizeof(int))\<close>: \<open>n\<close> zeroed entries, or the null pointer when the
  allocation fails.
\<close>

definition calloc_int :: "bool \<Rightarrow> nat \<Rightarrow> int list option" where
  "calloc_int ok n = (if ok then Some (replicate n 0) else None)"

text \<open>
  A constructor runs on the storage of the object under construction, \<open>this\<close>, whose
  members hold whatever the storage held before; a member the constructor does not
  assign keeps that content.
\<close>

definition NexaCtrl2 :: "bool \<Rightarrow> nexa \<Rightarrow> pin \<Rightarrow> pin \<Rightarrow> nexa \<times> event list" where
  "NexaCtrl2 alloc_ok this tx_pin rx_pin =
     (this\<lparr>tx_pin_m := tx_pin, rx_pin_m := rx_pin,
           low_pulse_array := calloc_int alloc_ok (kLowPulseLength + 2 * kDimLength)\<rparr>,
      [PinMode tx_pin OUTPUT, PinMode rx_pin INPUT])"

text \<open>
  The statement \<^verbatim>\<open>NexaCtrl(tx_pin, rx_pin);\<close> in the body of the three-argument
  constructor is an expression: it constructs a temporary object on storage of its
  own, \<open>temp\<close>, and discards it.
\<close>

definition NexaCtrl3 :: "bool \<Rightarrow> nexa \<Rightarrow> nexa \<Rightarrow> pin \<Rightarrow> pin \<Rightarrow> pin \<Rightarrow> nexa \<times> event list" where
  "NexaCtrl3 alloc_ok this temp tx_pin rx_pin led_pin =
     (let this = this\<lparr>led_pin_m := led_pin\<rparr>;
          (discarded, ev) = NexaCtrl2 alloc_ok temp tx_pin rx_pin
      in (this, PinMode led_pin OUTPUT # ev))"

subsection \<open>What the specification says\<close>

text \<open>
  The definitions of this subsection follow the words of the specification, not the
  code; the theorems below compare the code with them.
\<close>

text \<open>
  The standard big-endian \<open>n\<close>-bit representation of \<open>x\<close>: entry \<open>j\<close> is the bit of
  weight \<open>2 ^ (n - 1 - j)\<close>.
\<close>

definition big_endian :: "nat \<Rightarrow> 32 word \<Rightarrow> bool list" where
  "big_endian n x = map (\<lambda>j. bit x (n - 1 - j)) [0..<n]"

text \<open>
  The line code: a logical 0 is the pair (short, long), a logical 1 the pair
  (long, short), with short = 275 and long = 1225 microseconds.
\<close>

definition line_code :: "bool list \<Rightarrow> int list" where
  "line_code bs = concat (map (\<lambda>b. if b then [1225, 275] else [275, 1225]) bs)"

text \<open>Reading a pulse pair back: the two pairs of the line code, and nothing else.\<close>

definition spec_decode_pair :: "int \<times> int \<Rightarrow> bool option" where
  "spec_decode_pair p =
     (if p = (275, 1225) then Some False
      else if p = (1225, 275) then Some True
      else None)"

text \<open>The waveform of one transmission request, step by step.\<close>

definition spec_latch1 :: "pin \<Rightarrow> event list" where
  "spec_latch1 tx =
     [PinSetFast tx, DelayMicroseconds 275, PinResetFast tx, DelayMicroseconds 9900]"

definition spec_latch2 :: "pin \<Rightarrow> event list" where
  "spec_latch2 tx =
     [PinSetFast tx, DelayMicroseconds 275, PinResetFast tx, DelayMicroseconds 2675]"

definition spec_data_pulse :: "pin \<Rightarrow> int \<Rightarrow> event list" where
  "spec_data_pulse tx d =
     [PinSetFast tx, DelayMicroseconds 275, PinResetFast tx, DelayMicroseconds d]"

definition spec_repeat :: "pin \<Rightarrow> pin \<Rightarrow> int list \<Rightarrow> event list" where
  "spec_repeat led tx entries =
     (if 0 < led then [PinSetFast led] else [])
     @ spec_latch1 tx
     @ spec_latch2 tx
     @ concat (map (spec_data_pulse tx) entries)
     @ spec_latch2 tx
     @ (if 0 < led then [DigitalWrite led LOW] else [])
     @ [DelayMicroseconds 10000]"

definition spec_transmission :: "pin \<Rightarrow> pin \<Rightarrow> int list \<Rightarrow> event list" where
  "spec_transmission led tx entries =
     [NoInterrupts] @ spec_repeat led tx entries @ spec_repeat led tx entries @ [Interrupts]"

subsection \<open>Notions used in the statements\<close>

text \<open>
  The buffer \<open>arr\<close> with the entries from index \<open>idx\<close> on replaced by \<open>ps\<close>: what a
  run of stores to consecutive indices leaves behind.
\<close>

definition put_pulses :: "nat \<Rightarrow> int list \<Rightarrow> int list \<Rightarrow> int list" where
  "put_pulses idx ps arr = take idx arr @ ps @ drop (idx + length ps) arr"

text \<open>
  A command run that made no undefined access, kept the buffer's length and left
  the entries from index \<open>n\<close> on as they were in \<open>arr\<close>. An access at an index outside
  the buffer makes the run an \<open>Inl\<close>, so a run that is in bounds on a buffer of
  exactly \<open>n\<close> entries reads and writes indices below \<open>n\<close> only.
\<close>

definition in_bounds_run :: "nat \<Rightarrow> int list \<Rightarrow> error + nexa \<times> event list \<Rightarrow> bool" where
  "in_bounds_run n arr r =
     (case r of
        Inl e \<Rightarrow> False
      | Inr (this', ev) \<Rightarrow>
          (case low_pulse_array this' of
             None \<Rightarrow> False
           | Some arr' \<Rightarrow> length arr' = length arr \<and> drop n arr' = drop n arr))"

subsection \<open>An example object\<close>

text \<open>
  An object of static storage duration, whose storage is zero before its constructor
  runs, constructed by \<^verbatim>\<open>NexaCtrl(1, 2)\<close> with a successful allocation.
\<close>

definition static_storage :: nexa where
  "static_storage = \<lparr>tx_pin_m = 0, rx_pin_m = 0, led_pin_m = 0, low_pulse_array = None\<rparr>"

definition nexa_1_2 :: nexa where
  "nexa_1_2 = fst (NexaCtrl2 True static_storage 1 2)"

section \<open>Properties\<close>

text \<open>The loops are unfolded one iteration at a time, by the lemmas that say so.\<close>

declare itob_for.simps [simp del]
declare SetBit_for.simps [simp del]
declare Transmit_pulses.simps [simp del]
declare Transmit_for.simps [simp del]

named_theorems nexa_consts \<open>values of the class constants\<close>

lemmas constant_values [nexa_consts] =
  kPulseHigh_def kPulseLow0_def kPulseLow1_def kLowPulseLength_def
  kControllerIdOffset_def kControllerIdLength_def kGroupFlagOffset_def
  kOnFlagOffset_def kDeviceIdOffset_def kDeviceIdLength_def kDimOffset_def
  kDimLength_def

subsection \<open>Arithmetic of \<open>itob\<close> and \<open>power2\<close>\<close>

lemma unat_2p: 
  assumes "p < 32" shows "unat (2 ^ p :: 32 word) = 2 ^ p"
proof -
  have lt: "(2::nat) ^ p < 2 ^ LENGTH(32)"
    using assms by (intro power_strict_increasing) simp_all
  have "unat (of_nat (2 ^ p) :: 32 word) = 2 ^ p mod 2 ^ LENGTH(32)"
    by (rule unat_of_nat)
  also have "\<dots> = 2 ^ p" using lt by (rule mod_less)
  finally show ?thesis by simp
qed

lemma power2_unat: "p < 32 \<Longrightarrow> unat (power2 p) = 2 ^ p"
  by (simp add: power2_def unat_2p)

lemma div_power2_eq_1:
  assumes "k < 32"
  shows "(x div power2 k = 1) = (unat x div 2 ^ k = 1)"
  using assms by (simp add: word_unat_eq_iff unat_div power2_unat)

lemma sub_power2_take_bit:
  assumes "k < 32" "2 ^ k \<le> unat x" "unat x < 2 ^ Suc k"
  shows "x - power2 k = take_bit k x"
proof -
  have le: "power2 k \<le> x"
    using assms by (simp add: word_le_nat_alt power2_unat)
  have "unat (x - power2 k) = unat x - 2 ^ k"
    using assms le by (simp add: unat_sub power2_unat)
  also have "\<dots> = unat x mod 2 ^ k"
    using assms(2,3) by (simp add: mod_if le_mod_geq)
  also have "\<dots> = unat (take_bit k x)"
    using assms(1) by (simp add: take_bit_eq_mod unat_mod unat_2p)
  finally show ?thesis by (simp add: word_unat_eq_iff)
qed

lemma big_endian_Suc:
  "big_endian (Suc k) x = bit x k # big_endian k x"
  unfolding big_endian_def
  by (simp add: upt_rec[of 0] map_Suc_upt[symmetric] del: upt_Suc)


lemma bit_word_unat: "bit (x :: 32 word) k = odd (unat x div 2 ^ k)"
proof -
  have "bit (unat x) k = bit x k" by (simp add: bit_unsigned_iff)
  then show ?thesis by (simp only: bit_iff_odd)
qed

lemma itob_for_done: "\<not> i < len \<Longrightarrow> itob_for i bits integer len = bits"
  by (subst itob_for.simps) simp

lemma itob_for_one:
  "i < len \<Longrightarrow> len - 1 - i = k \<Longrightarrow> integer div power2 k = 1 \<Longrightarrow>
   itob_for i bits integer len = itob_for (Suc i) (bits[i := True]) (integer - power2 k) len"
  by (subst itob_for.simps) simp

lemma itob_for_zero:
  "i < len \<Longrightarrow> len - 1 - i = k \<Longrightarrow> integer div power2 k \<noteq> 1 \<Longrightarrow>
   itob_for i bits integer len = itob_for (Suc i) (bits[i := False]) integer len"
  by (subst itob_for.simps) simp

lemma take_Suc_update:
  "i < length bits \<Longrightarrow> take (Suc i) (bits[i := v]) = take i bits @ [v]"
  by (simp add: take_Suc_conv_app_nth)

lemma itob_for_in_range:
  "len \<le> 32 \<Longrightarrow> length bits = len \<Longrightarrow> len - i = k \<Longrightarrow> i \<le> len \<Longrightarrow> unat x < 2 ^ k \<Longrightarrow>
   itob_for i bits x len = take i bits @ big_endian k x"
proof (induction k arbitrary: i bits x)
  case 0
  then have "\<not> i < len" by simp
  with 0 show ?case by (simp add: itob_for_done big_endian_def)
next
  case (Suc k)
  have lt: "i < len" and e: "len - 1 - i = k" and e': "len - Suc i = k" and k: "k < 32"
    using Suc.prems by simp_all
  have il: "i < length bits" using lt Suc.prems by simp
  show ?case
  proof (cases "x div power2 k = 1")
    case True
    then have d: "unat x div 2 ^ k = 1" using k by (simp add: div_power2_eq_1)
    then have ge: "2 ^ k \<le> unat x"
      by (metis div_less not_le zero_neq_one)
    have bitk: "bit x k" using d by (simp add: bit_word_unat)
    have sub: "x - power2 k = take_bit k x"
      using k ge Suc.prems(5) by (rule sub_power2_take_bit)
    have small: "unat (take_bit k x) < 2 ^ k"
      by (simp add: unsigned_take_bit_eq)
    have "itob_for i bits x len = itob_for (Suc i) (bits[i := True]) (take_bit k x) len"
      using itob_for_one[OF lt e True] sub by simp
    also have "\<dots> = take (Suc i) (bits[i := True]) @ big_endian k (take_bit k x)"
      using Suc.prems(1,2) e' lt small by (intro Suc.IH) simp_all
    also have "big_endian k (take_bit k x) = big_endian k x"
      by (simp add: big_endian_def bit_take_bit_iff)
    finally show ?thesis
      using bitk il by (simp add: take_Suc_update big_endian_Suc)
  next
    case False
    then have ne: "unat x div 2 ^ k \<noteq> 1" using k by (simp add: div_power2_eq_1)
    have small: "unat x < 2 ^ k"
    proof (rule ccontr)
      assume "\<not> unat x < 2 ^ k"
      then have "2 ^ k \<le> unat x" by simp
      with Suc.prems(5) have "unat x div 2 ^ k = 1"
        by (simp add: div_nat_eqI)
      with ne show False by simp
    qed
    have bitk: "\<not> bit x k" using small by (simp add: bit_word_unat)
    have "itob_for i bits x len = itob_for (Suc i) (bits[i := False]) x len"
      using lt e False by (rule itob_for_zero)
    also have "\<dots> = take (Suc i) (bits[i := False]) @ big_endian k x"
      using Suc.prems(1,2) e' lt small by (intro Suc.IH) simp_all
    finally show ?thesis
      using bitk il by (simp add: take_Suc_update big_endian_Suc)
  qed
qed

lemma itob_for_out_of_range:
  "len < 32 \<Longrightarrow> length bits = len \<Longrightarrow> len - i = k \<Longrightarrow> i \<le> len \<Longrightarrow> 2 ^ len \<le> unat x \<Longrightarrow>
   itob_for i bits x len = take i bits @ replicate k False"
proof (induction k arbitrary: i bits)
  case 0
  then have "\<not> i < len" by simp
  with 0 show ?case by (simp add: itob_for_done)
next
  case (Suc k)
  have lt: "i < len" and e: "len - 1 - i = k" and e': "len - Suc i = k" and k: "k < 32"
    using Suc.prems by simp_all
  have il: "i < length bits" using lt Suc.prems by simp
  have "(2::nat) ^ Suc k \<le> 2 ^ len"
    using lt e by (intro power_increasing) simp_all
  then have "2 * 2 ^ k \<le> unat x" using Suc.prems(5) by simp
  then have "2 \<le> unat x div 2 ^ k"
    by (simp add: less_eq_div_iff_mult_less_eq)
  then have ne: "x div power2 k \<noteq> 1" using k by (simp add: div_power2_eq_1)
  have "itob_for i bits x len = itob_for (Suc i) (bits[i := False]) x len"
    using lt e ne by (rule itob_for_zero)
  also have "\<dots> = take (Suc i) (bits[i := False]) @ replicate k False"
    using Suc.prems(1,2,5) e' lt by (intro Suc.IH) simp_all
  finally show ?case
    using il by (simp add: take_Suc_update replicate_app_Cons_same)
qed

subsection \<open>Stores into the pulse buffer\<close>

lemma length_line_code [simp]: "length (line_code bs) = 2 * length bs"
  by (induction bs) (simp_all add: line_code_def)

lemma line_code_Cons:
  "line_code (b # bs) = (if b then [1225, 275] else [275, 1225]) @ line_code bs"
  by (simp add: line_code_def)

lemma line_code_append: "line_code (as @ bs) = line_code as @ line_code bs"
  by (simp add: line_code_def)

lemma length_put_pulses:
  "idx + length ps \<le> length arr \<Longrightarrow> length (put_pulses idx ps arr) = length arr"
  by (simp add: put_pulses_def)

lemma put_pulses_adjacent:
  "idx + length ps + length qs \<le> length arr \<Longrightarrow>
   put_pulses (idx + length ps) qs (put_pulses idx ps arr) = put_pulses idx (ps @ qs) arr"
  by (simp add: put_pulses_def ac_simps)

lemma nth_put_pulses:
  "idx + length ps \<le> length arr \<Longrightarrow> k < length arr \<Longrightarrow>
   put_pulses idx ps arr ! k =
     (if idx \<le> k \<and> k < idx + length ps then ps ! (k - idx) else arr ! k)"
  by (auto simp: put_pulses_def nth_append)

lemma store_pulse_Some:
  "low_pulse_array this = Some arr \<Longrightarrow> idx < length arr \<Longrightarrow>
   store_pulse idx v this = Inr (this\<lparr>low_pulse_array := Some (arr[idx := v])\<rparr>)"
  by (simp add: store_pulse_def)

lemma update2_put_pulses:
  assumes "Suc idx < length arr"
  shows "arr[idx := a, Suc idx := b] = put_pulses idx [a, b] arr"
proof (rule nth_equalityI)
  show "length (arr[idx := a, Suc idx := b]) = length (put_pulses idx [a, b] arr)"
    using assms by (simp add: length_put_pulses)
next
  fix k assume "k < length (arr[idx := a, Suc idx := b])"
  then have k: "k < length arr" by simp
  show "arr[idx := a, Suc idx := b] ! k = put_pulses idx [a, b] arr ! k"
    using assms k by (auto simp: nth_put_pulses nth_list_update nth_Cons' less_Suc_eq)
qed

lemma store_pair:
  assumes "low_pulse_array this = Some arr" "Suc idx < length arr"
  shows "and_then (store_pulse idx a this) (store_pulse (Suc idx) b)
         = Inr (this\<lparr>low_pulse_array := Some (put_pulses idx [a, b] arr)\<rparr>)"
  using assms by (simp add: and_then_def store_pulse_def update2_put_pulses)

lemma SetBit_Some:
  assumes "low_pulse_array this = Some arr" "bit_index * 2 + 1 < length arr"
  shows "SetBit bit_index v this
         = Inr (this\<lparr>low_pulse_array := Some (put_pulses (bit_index * 2) (line_code [v]) arr)\<rparr>)"
  using assms by (simp add: SetBit_def store_pair line_code_def nexa_consts)

lemma SetBit_for_done: "\<not> bitno < len \<Longrightarrow> SetBit_for bitno len offset bits this = Inr this"
  by (subst SetBit_for.simps) simp

lemma SetBit_for_step:
  "bitno < len \<Longrightarrow> SetBit (offset + bitno) (bits ! bitno) this = Inr this' \<Longrightarrow>
   SetBit_for bitno len offset bits this = SetBit_for (Suc bitno) len offset bits this'"
  by (subst SetBit_for.simps) simp

lemma SetBit_for_Some:
  "low_pulse_array this = Some arr \<Longrightarrow> length bits = len \<Longrightarrow> len - bitno = k \<Longrightarrow>
   bitno \<le> len \<Longrightarrow> 2 * (offset + len) \<le> length arr \<Longrightarrow>
   SetBit_for bitno len offset bits this
     = Inr (this\<lparr>low_pulse_array :=
              Some (put_pulses (2 * (offset + bitno)) (line_code (drop bitno bits)) arr)\<rparr>)"
proof (induction k arbitrary: bitno this arr)
  case 0
  then have "\<not> bitno < len" and "drop bitno bits = []" by simp_all
  with 0 show ?case
    by (simp add: SetBit_for_done put_pulses_def line_code_def)
next
  case (Suc k)
  have lt: "bitno < len" using Suc.prems by simp
  let ?idx = "2 * (offset + bitno)"
  let ?b = "bits ! bitno"
  let ?arr1 = "put_pulses ?idx (line_code [?b]) arr"
  let ?this1 = "this\<lparr>low_pulse_array := Some ?arr1\<rparr>"
  have inb: "(offset + bitno) * 2 + 1 < length arr" using lt Suc.prems(5) by simp
  have one: "SetBit (offset + bitno) ?b this = Inr ?this1"
    using SetBit_Some[OF Suc.prems(1) inb, of ?b] by (simp add: mult.commute)
  have len1: "length ?arr1 = length arr"
    using inb by (simp add: length_put_pulses)
  have rest: "SetBit_for (Suc bitno) len offset bits ?this1
     = Inr (?this1\<lparr>low_pulse_array :=
              Some (put_pulses (2 * (offset + Suc bitno)) (line_code (drop (Suc bitno) bits)) ?arr1)\<rparr>)"
    using Suc.prems lt len1 by (intro Suc.IH) simp_all
  have dr: "drop bitno bits = ?b # drop (Suc bitno) bits"
    using lt Suc.prems(2) by (simp add: Cons_nth_drop_Suc)
  have fit: "?idx + length (line_code [?b]) + length (line_code (drop (Suc bitno) bits)) \<le> length arr"
    using lt Suc.prems(2,5) by simp
  have "put_pulses (2 * (offset + Suc bitno)) (line_code (drop (Suc bitno) bits)) ?arr1
        = put_pulses (?idx + length (line_code [?b])) (line_code (drop (Suc bitno) bits)) ?arr1"
    by simp
  also have "\<dots> = put_pulses ?idx (line_code [?b] @ line_code (drop (Suc bitno) bits)) arr"
    using fit by (rule put_pulses_adjacent)
  also have "\<dots> = put_pulses ?idx (line_code (drop bitno bits)) arr"
    by (simp only: dr line_code_append[symmetric] append_Cons append_Nil)
  finally have arr2: "put_pulses (2 * (offset + Suc bitno)) (line_code (drop (Suc bitno) bits)) ?arr1
        = put_pulses ?idx (line_code (drop bitno bits)) arr" .
  show ?case
    using SetBit_for_step[OF lt one] rest arr2 by simp
qed

subsection \<open>The waveform of \<open>Transmit\<close>\<close>

lemma load_pulse_Some:
  "low_pulse_array this = Some arr \<Longrightarrow> idx < length arr \<Longrightarrow> load_pulse idx this = Inr (arr ! idx)"
  by (simp add: load_pulse_def)

lemma Transmit_pulses_done:
  "\<not> pulse_count < pulse_length \<Longrightarrow> Transmit_pulses pulse_count pulse_length this = Inr []"
  by (subst Transmit_pulses.simps) simp

lemma Transmit_pulses_step:
  "pulse_count < pulse_length \<Longrightarrow> load_pulse pulse_count this = Inr d \<Longrightarrow>
   Transmit_pulses (Suc pulse_count) pulse_length this = Inr rest \<Longrightarrow>
   Transmit_pulses pulse_count pulse_length this = Inr (spec_data_pulse (tx_pin_m this) d @ rest)"
  by (subst Transmit_pulses.simps) (simp add: spec_data_pulse_def nexa_consts)

lemma Transmit_pulses_Some:
  "low_pulse_array this = Some arr \<Longrightarrow> pulse_length \<le> length arr \<Longrightarrow>
   pulse_length - pulse_count = k \<Longrightarrow> pulse_count \<le> pulse_length \<Longrightarrow>
   Transmit_pulses pulse_count pulse_length this
     = Inr (concat (map (spec_data_pulse (tx_pin_m this)) (drop pulse_count (take pulse_length arr))))"
proof (induction k arbitrary: pulse_count)
  case 0
  then show ?case by (simp add: Transmit_pulses_done)
next
  case (Suc k)
  have lt: "pulse_count < pulse_length" using Suc.prems by simp
  have ld: "load_pulse pulse_count this = Inr (arr ! pulse_count)"
    using Suc.prems lt by (intro load_pulse_Some) simp_all
  have rest: "Transmit_pulses (Suc pulse_count) pulse_length this
     = Inr (concat (map (spec_data_pulse (tx_pin_m this)) (drop (Suc pulse_count) (take pulse_length arr))))"
    using Suc.prems lt by (intro Suc.IH) simp_all
  have dr: "drop pulse_count (take pulse_length arr)
            = arr ! pulse_count # drop (Suc pulse_count) (take pulse_length arr)"
    using lt Suc.prems(2) by (simp add: Cons_nth_drop_Suc[symmetric])
  show ?case
    using Transmit_pulses_step[OF lt ld rest] by (simp add: dr)
qed

lemma TransmitLatch1_spec: "TransmitLatch1 this = spec_latch1 (tx_pin_m this)"
  by (simp add: TransmitLatch1_def spec_latch1_def nexa_consts)

lemma TransmitLatch2_spec: "TransmitLatch2 this = spec_latch2 (tx_pin_m this)"
  by (simp add: TransmitLatch2_def spec_latch2_def nexa_consts)

lemma Transmit_for_done:
  "\<not> transmit_count < 2 \<Longrightarrow> Transmit_for transmit_count pulse_length this = Inr []"
  by (subst Transmit_for.simps) simp

lemma Transmit_Some:
  assumes "low_pulse_array this = Some arr" "pulse_length \<le> length arr"
  shows "Transmit pulse_length this
         = Inr (spec_transmission (led_pin_m this) (tx_pin_m this) (take pulse_length arr))"
proof -
  let ?entries = "take pulse_length arr"
  let ?rep = "spec_repeat (led_pin_m this) (tx_pin_m this) ?entries"
  have pulses: "Transmit_pulses 0 pulse_length this
     = Inr (concat (map (spec_data_pulse (tx_pin_m this)) ?entries))"
    using Transmit_pulses_Some[OF assms, of 0 pulse_length] by simp
  have t2: "Transmit_for (Suc (Suc 0)) pulse_length this = Inr []"
    by (simp add: Transmit_for_done)
  have t1: "Transmit_for (Suc 0) pulse_length this = Inr ?rep"
    by (subst Transmit_for.simps)
       (simp add: pulses t2 spec_repeat_def TransmitLatch1_spec TransmitLatch2_spec)
  have t0: "Transmit_for 0 pulse_length this = Inr (?rep @ ?rep)"
    by (subst Transmit_for.simps)
       (simp add: pulses t1 spec_repeat_def TransmitLatch1_spec TransmitLatch2_spec)
  show ?thesis
    by (simp add: Transmit_def t0 spec_transmission_def)
qed

lemma Transmit_pulses_no_irq:
  "Transmit_pulses pulse_count pulse_length this = Inr evs \<Longrightarrow> pulse_length - pulse_count = k \<Longrightarrow>
   NoInterrupts \<notin> set evs \<and> Interrupts \<notin> set evs"
proof (induction k arbitrary: pulse_count evs)
  case 0
  then have "\<not> pulse_count < pulse_length" by simp
  with 0 show ?case by (simp add: Transmit_pulses_done)
next
  case (Suc k)
  have lt: "pulse_count < pulse_length" using Suc.prems by simp
  obtain d rest where d: "load_pulse pulse_count this = Inr d"
    and rest: "Transmit_pulses (Suc pulse_count) pulse_length this = Inr rest"
    using Suc.prems(1) lt
    by (subst (asm) Transmit_pulses.simps) (auto split: sum.splits)
  have "evs = spec_data_pulse (tx_pin_m this) d @ rest"
    using Transmit_pulses_step[OF lt d rest] Suc.prems(1) by simp
  moreover have "pulse_length - Suc pulse_count = k"
    using Suc.prems(2) by arith
  then have "NoInterrupts \<notin> set rest \<and> Interrupts \<notin> set rest"
    using rest by (intro Suc.IH)
  ultimately show ?case by (simp add: spec_data_pulse_def)
qed

lemma Transmit_for_no_irq:
  "Transmit_for transmit_count pulse_length this = Inr evs \<Longrightarrow> 2 - transmit_count = k \<Longrightarrow>
   NoInterrupts \<notin> set evs \<and> Interrupts \<notin> set evs"
proof (induction k arbitrary: transmit_count evs)
  case 0
  then have "\<not> transmit_count < 2" by simp
  with 0 show ?case by (simp add: Transmit_for_done)
next
  case (Suc k)
  have lt: "transmit_count < 2" using Suc.prems by simp
  obtain pulses rest where p: "Transmit_pulses 0 pulse_length this = Inr pulses"
    and rest: "Transmit_for (Suc transmit_count) pulse_length this = Inr rest"
    using Suc.prems(1) lt
    by (subst (asm) Transmit_for.simps) (auto split: sum.splits)
  have evs: "evs = (if 0 < led_pin_m this then [PinSetFast (led_pin_m this)] else [])
                   @ TransmitLatch1 this @ TransmitLatch2 this @ pulses @ TransmitLatch2 this
                   @ (if 0 < led_pin_m this then [DigitalWrite (led_pin_m this) LOW] else [])
                   @ [DelayMicroseconds 10000] @ rest"
    using Suc.prems(1) lt p rest by (subst (asm) Transmit_for.simps) simp
  have a: "NoInterrupts \<notin> set pulses \<and> Interrupts \<notin> set pulses"
    using p by (rule Transmit_pulses_no_irq) simp
  have "2 - Suc transmit_count = k"
    using Suc.prems(2) by arith
  then have b: "NoInterrupts \<notin> set rest \<and> Interrupts \<notin> set rest"
    using rest by (intro Suc.IH)
  show ?case
    using a b by (simp add: evs TransmitLatch1_def TransmitLatch2_def)
qed

subsection \<open>The frame each command builds\<close>

lemma and_then_Inr [simp]: "and_then (Inr x) f = f x"
  by (simp add: and_then_def)

lemma and_then_Inl [simp]: "and_then (Inl e) f = Inl e"
  by (simp add: and_then_def)

lemma length_itob_for: "length (itob_for i bits integer len) = length bits"
  by (induction i bits integer len rule: itob_for.induct)
     (subst itob_for.simps, simp)

lemma length_itob [simp]: "length (itob bits integer len) = length bits"
  by (simp add: itob_def length_itob_for)

lemma SetBit_upd:
  "bit_index * 2 + 1 < length a \<Longrightarrow>
   SetBit bit_index v (this\<lparr>low_pulse_array := Some a\<rparr>)
     = Inr (this\<lparr>low_pulse_array := Some (put_pulses (bit_index * 2) (line_code [v]) a)\<rparr>)"
  using SetBit_Some[of "this\<lparr>low_pulse_array := Some a\<rparr>" a bit_index v] by simp

lemma store_pulse_upd:
  "idx < length a \<Longrightarrow>
   store_pulse idx v (this\<lparr>low_pulse_array := Some a\<rparr>)
     = Inr (this\<lparr>low_pulse_array := Some (a[idx := v])\<rparr>)"
  by (simp add: store_pulse_def)

lemma SetBit_for_upd:
  "length bits = len \<Longrightarrow> 2 * (offset + len) \<le> length a \<Longrightarrow>
   SetBit_for 0 len offset bits (this\<lparr>low_pulse_array := Some a\<rparr>)
     = Inr (this\<lparr>low_pulse_array := Some (put_pulses (2 * offset) (line_code bits) a)\<rparr>)"
  using SetBit_for_Some[of "this\<lparr>low_pulse_array := Some a\<rparr>" a bits len 0 len offset]
  by simp

lemma SetControllerBits_upd:
  "52 \<le> length a \<Longrightarrow>
   SetControllerBits controller_id (this\<lparr>low_pulse_array := Some a\<rparr>)
     = Inr (this\<lparr>low_pulse_array :=
              Some (put_pulses 0 (line_code (itob (replicate 26 False) controller_id 26)) a)\<rparr>)"
  by (simp add: SetControllerBits_def SetBit_for_upd nexa_consts)

lemma SetDeviceBits_upd:
  "64 \<le> length a \<Longrightarrow>
   SetDeviceBits device_id (this\<lparr>low_pulse_array := Some a\<rparr>)
     = Inr (this\<lparr>low_pulse_array :=
              Some (put_pulses 56 (line_code (itob (replicate 4 False) device_id 4)) a)\<rparr>)"
  by (simp add: SetDeviceBits_def SetBit_for_upd nexa_consts)

lemma transmitted_upd:
  "pulse_length \<le> length a \<Longrightarrow>
   transmitted pulse_length (this\<lparr>low_pulse_array := Some a\<rparr>)
     = Inr (this\<lparr>low_pulse_array := Some a\<rparr>,
            spec_transmission (led_pin_m this) (tx_pin_m this) (take pulse_length a))"
  using Transmit_Some[of "this\<lparr>low_pulse_array := Some a\<rparr>" a pulse_length]
  by (simp add: transmitted_def)

lemma frame_in_order:
  "length C = 52 \<Longrightarrow> length G = 2 \<Longrightarrow> length E = 2 \<Longrightarrow> length D = 8 \<Longrightarrow> 64 \<le> length a \<Longrightarrow>
   put_pulses 56 D (put_pulses 54 E (put_pulses 52 G (put_pulses 0 C a)))
     = C @ G @ E @ D @ drop 64 a"
  by (simp add: put_pulses_def)

lemma frame_group_order:
  "length C = 52 \<Longrightarrow> length G = 2 \<Longrightarrow> length E = 2 \<Longrightarrow> length D = 8 \<Longrightarrow> 64 \<le> length a \<Longrightarrow>
   put_pulses 54 E (put_pulses 52 G (put_pulses 56 D (put_pulses 0 C a)))
     = C @ G @ E @ D @ drop 64 a"
  by (simp add: put_pulses_def)

lemma frame_dim:
  "length C = 52 \<Longrightarrow> length G = 2 \<Longrightarrow> length E = 2 \<Longrightarrow> length D = 8 \<Longrightarrow> length M = 8 \<Longrightarrow>
   72 \<le> length a \<Longrightarrow>
   put_pulses 64 M (put_pulses 56 D (put_pulses 54 E (put_pulses 52 G (put_pulses 0 C a))))
     = C @ G @ E @ D @ M @ drop 72 a"
  by (simp add: put_pulses_def)

lemma line_code_Nil: "line_code [] = []"
  by (simp add: line_code_def)

lemmas frame_steps =
  SetControllerBits_upd SetDeviceBits_upd SetBit_upd SetBit_for_upd store_pulse_upd
  transmitted_upd length_put_pulses

lemma DeviceOn_upd:
  assumes "64 \<le> length a"
  shows "DeviceOn controller_id device_id (this\<lparr>low_pulse_array := Some a\<rparr>)
     = Inr (this\<lparr>low_pulse_array :=
              Some (line_code (itob (replicate 26 False) controller_id 26 @ [False] @ [True]
                               @ itob (replicate 4 False) device_id 4) @ drop 64 a)\<rparr>,
            spec_transmission (led_pin_m this) (tx_pin_m this)
              (line_code (itob (replicate 26 False) controller_id 26 @ [False] @ [True]
                          @ itob (replicate 4 False) device_id 4)))"
  using assms
  by (simp add: DeviceOn_def frame_steps frame_in_order line_code_append line_code_Cons line_code_Nil nexa_consts)

lemma DeviceOff_upd:
  assumes "64 \<le> length a"
  shows "DeviceOff controller_id device_id (this\<lparr>low_pulse_array := Some a\<rparr>)
     = Inr (this\<lparr>low_pulse_array :=
              Some (line_code (itob (replicate 26 False) controller_id 26 @ [False] @ [False]
                               @ itob (replicate 4 False) device_id 4) @ drop 64 a)\<rparr>,
            spec_transmission (led_pin_m this) (tx_pin_m this)
              (line_code (itob (replicate 26 False) controller_id 26 @ [False] @ [False]
                          @ itob (replicate 4 False) device_id 4)))"
  using assms
  by (simp add: DeviceOff_def frame_steps frame_in_order line_code_append line_code_Cons line_code_Nil nexa_consts)

lemma GroupOn_upd:
  assumes "64 \<le> length a"
  shows "GroupOn controller_id (this\<lparr>low_pulse_array := Some a\<rparr>)
     = Inr (this\<lparr>low_pulse_array :=
              Some (line_code (itob (replicate 26 False) controller_id 26 @ [True] @ [True]
                               @ itob (replicate 4 False) 0 4) @ drop 64 a)\<rparr>,
            spec_transmission (led_pin_m this) (tx_pin_m this)
              (line_code (itob (replicate 26 False) controller_id 26 @ [True] @ [True]
                          @ itob (replicate 4 False) 0 4)))"
  using assms
  by (simp add: GroupOn_def frame_steps frame_group_order line_code_append line_code_Cons line_code_Nil nexa_consts)

lemma GroupOff_upd:
  assumes "64 \<le> length a"
  shows "GroupOff controller_id (this\<lparr>low_pulse_array := Some a\<rparr>)
     = Inr (this\<lparr>low_pulse_array :=
              Some (line_code (itob (replicate 26 False) controller_id 26 @ [True] @ [False]
                               @ itob (replicate 4 False) 0 4) @ drop 64 a)\<rparr>,
            spec_transmission (led_pin_m this) (tx_pin_m this)
              (line_code (itob (replicate 26 False) controller_id 26 @ [True] @ [False]
                          @ itob (replicate 4 False) 0 4)))"
  using assms
  by (simp add: GroupOff_def frame_steps frame_group_order line_code_append line_code_Cons line_code_Nil nexa_consts)

lemma on_flag_stores:
  "55 < length arr \<Longrightarrow> arr[54 := x, 55 := y] = put_pulses 54 [x, y] arr"
  using update2_put_pulses[of 54 arr x y] by simp

lemma DeviceDim_upd:
  assumes "72 \<le> length a"
  shows "DeviceDim controller_id device_id dim_level (this\<lparr>low_pulse_array := Some a\<rparr>)
     = Inr (this\<lparr>low_pulse_array :=
              Some (line_code (itob (replicate 26 False) controller_id 26 @ [False])
                    @ [275, 275]
                    @ line_code (itob (replicate 4 False) device_id 4
                                 @ itob (replicate 4 False) 0 4)
                    @ drop 72 a)\<rparr>,
            spec_transmission (led_pin_m this) (tx_pin_m this)
              (line_code (itob (replicate 26 False) controller_id 26 @ [False])
               @ [275, 275]
               @ line_code (itob (replicate 4 False) device_id 4
                            @ itob (replicate 4 False) 0 4)))"
  using assms
  by (simp add: DeviceDim_def frame_steps on_flag_stores frame_dim
        line_code_append line_code_Cons line_code_Nil nexa_consts)

lemma this_upd: "low_pulse_array this = Some arr \<Longrightarrow> this\<lparr>low_pulse_array := Some arr\<rparr> = this"
  by (cases this) simp

lemma nexa_1_2_eq:
  "nexa_1_2 = \<lparr>tx_pin_m = 1, rx_pin_m = 2, led_pin_m = 0, low_pulse_array = Some (replicate 72 0)\<rparr>"
  by (simp add: nexa_1_2_def NexaCtrl2_def static_storage_def calloc_int_def nexa_consts)

lemma itob_fits: "n \<le> 32 \<Longrightarrow> length bits = n \<Longrightarrow> unat x < 2 ^ n \<Longrightarrow> itob bits x n = big_endian n x"
  using itob_for_in_range[of n bits 0 n x] by (simp add: itob_def)

lemma itob_too_wide:
  "n < 32 \<Longrightarrow> length bits = n \<Longrightarrow> 2 ^ n \<le> unat x \<Longrightarrow> itob bits x n = replicate n False"
  using itob_for_out_of_range[of n bits 0 n x] by (simp add: itob_def)

lemma itob_cases:
  assumes "len < 32" "length bits = len"
  shows "itob bits x len = (if unat x < 2 ^ len then big_endian len x else replicate len False)"
  using assms by (simp add: itob_fits itob_too_wide not_less)

lemma itob_device_0: "itob (replicate 4 False) 0 4 = big_endian 4 0"
  by (simp add: itob_fits)

lemma big_endian_26_1: "big_endian 26 1 = replicate 25 False @ [True]"
  by code_simp

lemma big_endian_4_3: "big_endian 4 3 = [False, False, True, True]"
  by code_simp

lemma big_endian_4_0: "big_endian 4 0 = [False, False, False, False]"
  by code_simp

lemma DeviceOn_Some:
  assumes "low_pulse_array this = Some arr" "64 \<le> length arr"
  shows "DeviceOn controller_id device_id this
     = Inr (this\<lparr>low_pulse_array :=
              Some (line_code (itob (replicate 26 False) controller_id 26 @ [False] @ [True]
                               @ itob (replicate 4 False) device_id 4) @ drop 64 arr)\<rparr>,
            spec_transmission (led_pin_m this) (tx_pin_m this)
              (line_code (itob (replicate 26 False) controller_id 26 @ [False] @ [True]
                          @ itob (replicate 4 False) device_id 4)))"
  using DeviceOn_upd[OF assms(2), of controller_id device_id this] this_upd[OF assms(1)]
  by simp

lemma DeviceOff_Some:
  assumes "low_pulse_array this = Some arr" "64 \<le> length arr"
  shows "DeviceOff controller_id device_id this
     = Inr (this\<lparr>low_pulse_array :=
              Some (line_code (itob (replicate 26 False) controller_id 26 @ [False] @ [False]
                               @ itob (replicate 4 False) device_id 4) @ drop 64 arr)\<rparr>,
            spec_transmission (led_pin_m this) (tx_pin_m this)
              (line_code (itob (replicate 26 False) controller_id 26 @ [False] @ [False]
                          @ itob (replicate 4 False) device_id 4)))"
  using DeviceOff_upd[OF assms(2), of controller_id device_id this] this_upd[OF assms(1)]
  by simp

lemma GroupOn_Some:
  assumes "low_pulse_array this = Some arr" "64 \<le> length arr"
  shows "GroupOn controller_id this
     = Inr (this\<lparr>low_pulse_array :=
              Some (line_code (itob (replicate 26 False) controller_id 26 @ [True] @ [True]
                               @ big_endian 4 0) @ drop 64 arr)\<rparr>,
            spec_transmission (led_pin_m this) (tx_pin_m this)
              (line_code (itob (replicate 26 False) controller_id 26 @ [True] @ [True]
                          @ big_endian 4 0)))"
  using GroupOn_upd[OF assms(2), of controller_id this] this_upd[OF assms(1)]
  by (simp add: itob_device_0)

lemma GroupOff_Some:
  assumes "low_pulse_array this = Some arr" "64 \<le> length arr"
  shows "GroupOff controller_id this
     = Inr (this\<lparr>low_pulse_array :=
              Some (line_code (itob (replicate 26 False) controller_id 26 @ [True] @ [False]
                               @ big_endian 4 0) @ drop 64 arr)\<rparr>,
            spec_transmission (led_pin_m this) (tx_pin_m this)
              (line_code (itob (replicate 26 False) controller_id 26 @ [True] @ [False]
                          @ big_endian 4 0)))"
  using GroupOff_upd[OF assms(2), of controller_id this] this_upd[OF assms(1)]
  by (simp add: itob_device_0)

lemma DeviceDim_Some:
  assumes "low_pulse_array this = Some arr" "72 \<le> length arr"
  shows "DeviceDim controller_id device_id dim_level this
     = Inr (this\<lparr>low_pulse_array :=
              Some (line_code (itob (replicate 26 False) controller_id 26 @ [False])
                    @ [275, 275]
                    @ line_code (itob (replicate 4 False) device_id 4 @ big_endian 4 0)
                    @ drop 72 arr)\<rparr>,
            spec_transmission (led_pin_m this) (tx_pin_m this)
              (line_code (itob (replicate 26 False) controller_id 26 @ [False])
               @ [275, 275]
               @ line_code (itob (replicate 4 False) device_id 4 @ big_endian 4 0)))"
  using DeviceDim_upd[OF assms(2), of controller_id device_id dim_level this] this_upd[OF assms(1)]
  by (simp add: itob_device_0)

lemma SetControllerBits_Some:
  assumes "low_pulse_array this = Some arr" "52 \<le> length arr"
  shows "SetControllerBits controller_id this
     = Inr (this\<lparr>low_pulse_array :=
              Some (line_code (itob (replicate 26 False) controller_id 26) @ drop 52 arr)\<rparr>)"
  using SetControllerBits_upd[OF assms(2), of controller_id this] this_upd[OF assms(1)]
  by (simp add: put_pulses_def)

lemma SetDeviceBits_Some:
  assumes "low_pulse_array this = Some arr" "64 \<le> length arr"
  shows "SetDeviceBits device_id this
     = Inr (this\<lparr>low_pulse_array :=
              Some (take 56 arr @ line_code (itob (replicate 4 False) device_id 4)
                    @ drop 64 arr)\<rparr>)"
  using SetDeviceBits_upd[OF assms(2), of device_id this] this_upd[OF assms(1)]
  by (simp add: put_pulses_def)

lemma in_bounds_runI:
  "r = Inr (this\<lparr>low_pulse_array := Some (F @ drop n arr)\<rparr>, ev) \<Longrightarrow> length F = n \<Longrightarrow>
   n \<le> length arr \<Longrightarrow> in_bounds_run n arr r"
  by (simp add: in_bounds_run_def)

subsection \<open>Commands on an object without a buffer\<close>

lemma SetBit_null: "low_pulse_array this = None \<Longrightarrow> SetBit bit_index v this = Inl NullBuffer"
  by (simp add: SetBit_def store_pulse_def)

lemma SetBit_for_null:
  "low_pulse_array this = None \<Longrightarrow> 0 < len \<Longrightarrow> SetBit_for 0 len offset bits this = Inl NullBuffer"
  by (subst SetBit_for.simps) (simp add: SetBit_null)

lemma SetControllerBits_null:
  "low_pulse_array this = None \<Longrightarrow> SetControllerBits controller_id this = Inl NullBuffer"
  by (simp add: SetControllerBits_def SetBit_for_null nexa_consts)

lemma commands_null:
  assumes "low_pulse_array this = None"
  shows "DeviceOn controller_id device_id this = Inl NullBuffer"
    and "DeviceOff controller_id device_id this = Inl NullBuffer"
    and "DeviceDim controller_id device_id dim_level this = Inl NullBuffer"
    and "GroupOn controller_id this = Inl NullBuffer"
    and "GroupOff controller_id this = Inl NullBuffer"
  using assms
  by (simp_all add: DeviceOn_def DeviceOff_def DeviceDim_def GroupOn_def GroupOff_def
        SetControllerBits_null)

section \<open>The claims\<close>

text \<open>
  C1. \<open>SetBit\<close>, the one place where a command writes a logical frame bit, stores the
  pair (275, 1225) for a logical 0 and the pair (1225, 275) for a logical 1 into the
  two slots of the bit; reading the stored pair back with the line code gives the
  bit that was written.
\<close>

theorem SetBit_line_code:
  assumes "low_pulse_array this = Some arr" "bit_index * 2 + 1 < length arr"
  shows "\<exists>arr'. SetBit bit_index v this = Inr (this\<lparr>low_pulse_array := Some arr'\<rparr>)
           \<and> (arr' ! (bit_index * 2), arr' ! (bit_index * 2 + 1))
               = (if v then (1225, 275) else (275, 1225))
           \<and> spec_decode_pair (arr' ! (bit_index * 2), arr' ! (bit_index * 2 + 1)) = Some v"
proof -
  let ?arr' = "put_pulses (bit_index * 2) (line_code [v]) arr"
  have len: "bit_index * 2 + length (line_code [v]) \<le> length arr"
    using assms(2) by simp
  have n0: "?arr' ! (bit_index * 2) = (if v then 1225 else 275)"
    using assms(2) len by (simp add: nth_put_pulses line_code_def)
  have n1: "?arr' ! (bit_index * 2 + 1) = (if v then 275 else 1225)"
    using assms(2) len by (simp add: nth_put_pulses line_code_def)
  have "SetBit bit_index v this = Inr (this\<lparr>low_pulse_array := Some ?arr'\<rparr>)"
    using assms by (rule SetBit_Some)
  moreover have "(?arr' ! (bit_index * 2), ?arr' ! (bit_index * 2 + 1))
                  = (if v then (1225, 275) else (275, 1225))"
    by (simp only: n0 n1 if_distrib split: if_splits) simp
  moreover have "spec_decode_pair (?arr' ! (bit_index * 2), ?arr' ! (bit_index * 2 + 1)) = Some v"
    by (simp only: n0 n1) (simp add: spec_decode_pair_def)
  ultimately show ?thesis by blast
qed

theorem SetBit_line_code_witness:
  "low_pulse_array \<lparr>tx_pin_m = 1, rx_pin_m = 2, led_pin_m = 0,
                    low_pulse_array = Some (replicate 72 0)\<rparr> = Some (replicate 72 0)
   \<and> 27 * 2 + 1 < length (replicate 72 (0 :: int))
   \<and> (\<exists>arr'. SetBit 27 True \<lparr>tx_pin_m = 1, rx_pin_m = 2, led_pin_m = 0,
                               low_pulse_array = Some (replicate 72 0)\<rparr>
               = Inr \<lparr>tx_pin_m = 1, rx_pin_m = 2, led_pin_m = 0, low_pulse_array = Some arr'\<rparr>
        \<and> (arr' ! 54, arr' ! 55) = (1225, 275)
        \<and> spec_decode_pair (arr' ! 54, arr' ! 55) = Some True)"
  using SetBit_line_code[of "\<lparr>tx_pin_m = 1, rx_pin_m = 2, led_pin_m = 0,
                    low_pulse_array = Some (replicate 72 0)\<rparr>" "replicate 72 0" 27 True]
  by simp

text \<open>
  C3. For a value that fits its field, \<open>itob\<close> produces the standard big-endian
  representation: 26 bits for a \<open>controller_id\<close> below \<open>2 ^ 26\<close>, 4 bits for a
  \<open>device_id\<close> and for a \<open>dim_level\<close> below 16, whatever the array held before.
\<close>

theorem itob_big_endian:
  "(unat controller_id < 2 ^ 26 \<longrightarrow> length controller = kControllerIdLength \<longrightarrow>
      itob controller controller_id kControllerIdLength = big_endian 26 controller_id)
   \<and> (unat device_id < 2 ^ 4 \<longrightarrow> length device = kDeviceIdLength \<longrightarrow>
      itob device device_id kDeviceIdLength = big_endian 4 device_id)
   \<and> (unat dim_level < 2 ^ 4 \<longrightarrow> length dim_bits = kDimLength \<longrightarrow>
      itob dim_bits dim_level kDimLength = big_endian 4 dim_level)"
proof -
  have field: "itob bits x n = big_endian n x"
    if "n \<le> 32" "length bits = n" "unat x < 2 ^ n" for bits x n
    using itob_for_in_range[of n bits 0 n x] that by (simp add: itob_def)
  show ?thesis
    by (simp add: field nexa_consts)
qed

theorem itob_big_endian_witness:
  "unat (1 :: 32 word) < 2 ^ 26 \<and> length (replicate 26 False) = kControllerIdLength
   \<and> itob (replicate 26 False) 1 kControllerIdLength = replicate 25 False @ [True]
   \<and> unat (3 :: 32 word) < 2 ^ 4 \<and> length (replicate 4 False) = kDeviceIdLength
   \<and> itob (replicate 4 False) 3 kDeviceIdLength = [False, False, True, True]
   \<and> unat (15 :: 32 word) < 2 ^ 4 \<and> length (replicate 4 True) = kDimLength
   \<and> itob (replicate 4 True) 15 kDimLength = [True, True, True, True]"
proof -
  have a: "big_endian 26 1 = replicate 25 False @ [True]"
    by code_simp
  have b: "big_endian 4 3 = [False, False, True, True]"
    by code_simp
  have c: "big_endian 4 15 = [True, True, True, True]"
    by code_simp
  show ?thesis
    using itob_big_endian[of 1 "replicate 26 False" 3 "replicate 4 False" 15 "replicate 4 True"]
    by (simp add: a b c nexa_consts)
qed

text \<open>
  C2. On an object whose buffer holds at least 64 entries, each of the four on/off
  commands leaves in the buffer, and transmits, the line code of the frame: the 26
  controller bits, then the group flag, then the on flag, then the 4 device bits.
  \<open>DeviceOn\<close> has group flag 0 and on flag 1, \<open>DeviceOff\<close> has 0 and 0, \<open>GroupOn\<close>
  has 1 and 1 and \<open>GroupOff\<close> has 1 and 0; the device bits of the two group commands
  are those of the value 0.
\<close>

theorem command_flags:
  assumes "low_pulse_array this = Some arr" "64 \<le> length arr"
  shows "(let frame = line_code (itob (replicate 26 False) controller_id 26
                                 @ [False] @ [True] @ itob (replicate 4 False) device_id 4)
          in DeviceOn controller_id device_id this
               = Inr (this\<lparr>low_pulse_array := Some (frame @ drop 64 arr)\<rparr>,
                      spec_transmission (led_pin_m this) (tx_pin_m this) frame))
       \<and> (let frame = line_code (itob (replicate 26 False) controller_id 26
                                 @ [False] @ [False] @ itob (replicate 4 False) device_id 4)
          in DeviceOff controller_id device_id this
               = Inr (this\<lparr>low_pulse_array := Some (frame @ drop 64 arr)\<rparr>,
                      spec_transmission (led_pin_m this) (tx_pin_m this) frame))
       \<and> (let frame = line_code (itob (replicate 26 False) controller_id 26
                                 @ [True] @ [True] @ big_endian 4 0)
          in GroupOn controller_id this
               = Inr (this\<lparr>low_pulse_array := Some (frame @ drop 64 arr)\<rparr>,
                      spec_transmission (led_pin_m this) (tx_pin_m this) frame))
       \<and> (let frame = line_code (itob (replicate 26 False) controller_id 26
                                 @ [True] @ [False] @ big_endian 4 0)
          in GroupOff controller_id this
               = Inr (this\<lparr>low_pulse_array := Some (frame @ drop 64 arr)\<rparr>,
                      spec_transmission (led_pin_m this) (tx_pin_m this) frame))"
  unfolding Let_def
  using DeviceOn_Some[OF assms] DeviceOff_Some[OF assms] GroupOn_Some[OF assms]
    GroupOff_Some[OF assms]
  by blast

theorem command_flags_witness:
  "low_pulse_array nexa_1_2 = Some (replicate 72 0)
   \<and> 64 \<le> length (replicate 72 (0 :: int))
   \<and> DeviceOn 1 3 nexa_1_2
       = Inr (nexa_1_2\<lparr>low_pulse_array :=
                Some (line_code (replicate 25 False @ [True] @ [False] @ [True]
                                 @ [False, False, True, True]) @ replicate 8 0)\<rparr>,
              spec_transmission 0 1
                (line_code (replicate 25 False @ [True] @ [False] @ [True]
                            @ [False, False, True, True])))
   \<and> GroupOff 1 nexa_1_2
       = Inr (nexa_1_2\<lparr>low_pulse_array :=
                Some (line_code (replicate 25 False @ [True] @ [True] @ [False]
                                 @ [False, False, False, False]) @ replicate 8 0)\<rparr>,
              spec_transmission 0 1
                (line_code (replicate 25 False @ [True] @ [True] @ [False]
                            @ [False, False, False, False])))"
  using command_flags[of nexa_1_2 "replicate 72 0" 1 3]
  by (simp add: nexa_1_2_eq itob_fits big_endian_26_1 big_endian_4_3 big_endian_4_0 Let_def)

text \<open>
  C4. The number of low-pulse entries a command transmits: 64 for \<open>DeviceOn\<close>,
  \<open>DeviceOff\<close>, \<open>GroupOn\<close> and \<open>GroupOff\<close>, which replay the first 64 entries of the
  buffer they leave, and 72 for \<open>DeviceDim\<close>, which replays the first 72.
\<close>

theorem pulse_sequence_length:
  assumes "low_pulse_array this = Some arr"
  shows "(64 \<le> length arr \<longrightarrow>
            (\<exists>arr'. DeviceOn controller_id device_id this
                      = Inr (this\<lparr>low_pulse_array := Some arr'\<rparr>,
                             spec_transmission (led_pin_m this) (tx_pin_m this) (take 64 arr'))
                    \<and> length (take 64 arr') = 64)
          \<and> (\<exists>arr'. DeviceOff controller_id device_id this
                      = Inr (this\<lparr>low_pulse_array := Some arr'\<rparr>,
                             spec_transmission (led_pin_m this) (tx_pin_m this) (take 64 arr'))
                    \<and> length (take 64 arr') = 64)
          \<and> (\<exists>arr'. GroupOn controller_id this
                      = Inr (this\<lparr>low_pulse_array := Some arr'\<rparr>,
                             spec_transmission (led_pin_m this) (tx_pin_m this) (take 64 arr'))
                    \<and> length (take 64 arr') = 64)
          \<and> (\<exists>arr'. GroupOff controller_id this
                      = Inr (this\<lparr>low_pulse_array := Some arr'\<rparr>,
                             spec_transmission (led_pin_m this) (tx_pin_m this) (take 64 arr'))
                    \<and> length (take 64 arr') = 64))
       \<and> (72 \<le> length arr \<longrightarrow>
            (\<exists>arr'. DeviceDim controller_id device_id dim_level this
                      = Inr (this\<lparr>low_pulse_array := Some arr'\<rparr>,
                             spec_transmission (led_pin_m this) (tx_pin_m this) (take 72 arr'))
                    \<and> length (take 72 arr') = 72))"
proof (intro conjI impI)
  assume n: "64 \<le> length arr"
  show "\<exists>arr'. DeviceOn controller_id device_id this
                = Inr (this\<lparr>low_pulse_array := Some arr'\<rparr>,
                       spec_transmission (led_pin_m this) (tx_pin_m this) (take 64 arr'))
              \<and> length (take 64 arr') = 64"
    by (rule exI[of _ "line_code (itob (replicate 26 False) controller_id 26 @ [False] @ [True]
                          @ itob (replicate 4 False) device_id 4) @ drop 64 arr"])
       (simp add: DeviceOn_Some[OF assms n])
  show "\<exists>arr'. DeviceOff controller_id device_id this
                = Inr (this\<lparr>low_pulse_array := Some arr'\<rparr>,
                       spec_transmission (led_pin_m this) (tx_pin_m this) (take 64 arr'))
              \<and> length (take 64 arr') = 64"
    by (rule exI[of _ "line_code (itob (replicate 26 False) controller_id 26 @ [False] @ [False]
                          @ itob (replicate 4 False) device_id 4) @ drop 64 arr"])
       (simp add: DeviceOff_Some[OF assms n])
  show "\<exists>arr'. GroupOn controller_id this
                = Inr (this\<lparr>low_pulse_array := Some arr'\<rparr>,
                       spec_transmission (led_pin_m this) (tx_pin_m this) (take 64 arr'))
              \<and> length (take 64 arr') = 64"
    by (rule exI[of _ "line_code (itob (replicate 26 False) controller_id 26 @ [True] @ [True]
                          @ big_endian 4 0) @ drop 64 arr"])
       (simp add: GroupOn_Some[OF assms n] big_endian_def)
  show "\<exists>arr'. GroupOff controller_id this
                = Inr (this\<lparr>low_pulse_array := Some arr'\<rparr>,
                       spec_transmission (led_pin_m this) (tx_pin_m this) (take 64 arr'))
              \<and> length (take 64 arr') = 64"
    by (rule exI[of _ "line_code (itob (replicate 26 False) controller_id 26 @ [True] @ [False]
                          @ big_endian 4 0) @ drop 64 arr"])
       (simp add: GroupOff_Some[OF assms n] big_endian_def)
next
  assume n: "72 \<le> length arr"
  show "\<exists>arr'. DeviceDim controller_id device_id dim_level this
                = Inr (this\<lparr>low_pulse_array := Some arr'\<rparr>,
                       spec_transmission (led_pin_m this) (tx_pin_m this) (take 72 arr'))
              \<and> length (take 72 arr') = 72"
    by (rule exI[of _ "line_code (itob (replicate 26 False) controller_id 26 @ [False])
                    @ [275, 275]
                    @ line_code (itob (replicate 4 False) device_id 4 @ big_endian 4 0)
                    @ drop 72 arr"])
       (simp add: DeviceDim_Some[OF assms n] big_endian_def)
qed

theorem pulse_sequence_length_witness:
  "low_pulse_array nexa_1_2 = Some (replicate 72 0)
   \<and> 64 \<le> length (replicate 72 (0 :: int)) \<and> 72 \<le> length (replicate 72 (0 :: int))
   \<and> (\<exists>arr'. DeviceOn 1 3 nexa_1_2
                = Inr (nexa_1_2\<lparr>low_pulse_array := Some arr'\<rparr>,
                       spec_transmission 0 1 (take 64 arr'))
              \<and> length (take 64 arr') = 64)
   \<and> (\<exists>arr'. DeviceDim 1 3 50 nexa_1_2
                = Inr (nexa_1_2\<lparr>low_pulse_array := Some arr'\<rparr>,
                       spec_transmission 0 1 (take 72 arr'))
              \<and> length (take 72 arr') = 72)"
  using pulse_sequence_length[of nexa_1_2 "replicate 72 0" 1 3 50]
  by (simp add: nexa_1_2_eq)

text \<open>
  C5. \<open>Transmit\<close> on a buffer of at least \<open>pulse_length\<close> entries performs exactly the
  platform calls of \<open>spec_transmission\<close>: interrupts off, two repeats, interrupts on,
  where a repeat is Latch 1 (high 275, low 9900), Latch 2 (high 275, low 2675), one
  pulse per entry in order (high 275, low the entry's duration), Latch 2 again and
  the gap of 10000, with the indicator pin set before and cleared after when it is
  configured.
\<close>

theorem Transmit_waveform:
  assumes "low_pulse_array this = Some arr" "pulse_length \<le> length arr"
  shows "Transmit pulse_length this
         = Inr (spec_transmission (led_pin_m this) (tx_pin_m this) (take pulse_length arr))"
  using assms by (rule Transmit_Some)

theorem Transmit_waveform_witness:
  "low_pulse_array \<lparr>tx_pin_m = 1, rx_pin_m = 2, led_pin_m = 0,
                    low_pulse_array = Some [1225, 275]\<rparr> = Some [1225, 275]
   \<and> 2 \<le> length [1225, 275 :: int]
   \<and> Transmit 2 \<lparr>tx_pin_m = 1, rx_pin_m = 2, led_pin_m = 0,
                   low_pulse_array = Some [1225, 275]\<rparr>
       = Inr [NoInterrupts,
              PinSetFast 1, DelayMicroseconds 275, PinResetFast 1, DelayMicroseconds 9900,
              PinSetFast 1, DelayMicroseconds 275, PinResetFast 1, DelayMicroseconds 2675,
              PinSetFast 1, DelayMicroseconds 275, PinResetFast 1, DelayMicroseconds 1225,
              PinSetFast 1, DelayMicroseconds 275, PinResetFast 1, DelayMicroseconds 275,
              PinSetFast 1, DelayMicroseconds 275, PinResetFast 1, DelayMicroseconds 2675,
              DelayMicroseconds 10000,
              PinSetFast 1, DelayMicroseconds 275, PinResetFast 1, DelayMicroseconds 9900,
              PinSetFast 1, DelayMicroseconds 275, PinResetFast 1, DelayMicroseconds 2675,
              PinSetFast 1, DelayMicroseconds 275, PinResetFast 1, DelayMicroseconds 1225,
              PinSetFast 1, DelayMicroseconds 275, PinResetFast 1, DelayMicroseconds 275,
              PinSetFast 1, DelayMicroseconds 275, PinResetFast 1, DelayMicroseconds 2675,
              DelayMicroseconds 10000,
              Interrupts]"
  using Transmit_waveform[of "\<lparr>tx_pin_m = 1, rx_pin_m = 2, led_pin_m = 0,
                    low_pulse_array = Some [1225, 275]\<rparr>" "[1225, 275]" 2]
  by (simp add: spec_transmission_def spec_repeat_def spec_latch1_def
        spec_latch2_def spec_data_pulse_def)

text \<open>
  C8. Whenever \<open>Transmit\<close> returns, its first platform call disabled interrupts, its
  last one enabled them, and neither call occurs in between: every pin write and
  every delay of both repeats happens while interrupts are disabled. On a buffer of
  at least \<open>pulse_length\<close> entries it does return.
\<close>

theorem Transmit_masks_interrupts:
  "(Transmit pulse_length this = Inr ev \<longrightarrow>
      (\<exists>body. ev = [NoInterrupts] @ body @ [Interrupts]
         \<and> NoInterrupts \<notin> set body \<and> Interrupts \<notin> set body))
   \<and> (low_pulse_array this = Some arr \<longrightarrow> pulse_length \<le> length arr \<longrightarrow>
      (\<exists>ev. Transmit pulse_length this = Inr ev))"
proof (intro conjI impI)
  assume r: "Transmit pulse_length this = Inr ev"
  then obtain body where body: "Transmit_for 0 pulse_length this = Inr body"
    and ev: "ev = [NoInterrupts] @ body @ [Interrupts]"
    by (auto simp: Transmit_def split: sum.splits)
  have "NoInterrupts \<notin> set body \<and> Interrupts \<notin> set body"
    using body by (rule Transmit_for_no_irq) simp
  with ev show "\<exists>body. ev = [NoInterrupts] @ body @ [Interrupts]
         \<and> NoInterrupts \<notin> set body \<and> Interrupts \<notin> set body"
    by blast
next
  assume "low_pulse_array this = Some arr" "pulse_length \<le> length arr"
  then show "\<exists>ev. Transmit pulse_length this = Inr ev"
    by (simp add: Transmit_Some)
qed

theorem Transmit_masks_interrupts_witness:
  "low_pulse_array nexa_1_2 = Some (replicate 72 0) \<and> 64 \<le> length (replicate 72 (0 :: int))
   \<and> (\<exists>body. Transmit 64 nexa_1_2 = Inr ([NoInterrupts] @ body @ [Interrupts])
           \<and> NoInterrupts \<notin> set body \<and> Interrupts \<notin> set body)"
proof -
  note t = Transmit_masks_interrupts[where pulse_length = 64 and this = nexa_1_2
             and arr = "replicate 72 0"]
  have buf: "low_pulse_array nexa_1_2 = Some (replicate 72 0)"
    by (simp add: nexa_1_2_eq)
  have len: "64 \<le> length (replicate 72 (0 :: int))"
    by simp
  obtain ev where ev: "Transmit 64 nexa_1_2 = Inr ev"
    using t buf len by blast
  then have "\<exists>body. ev = [NoInterrupts] @ body @ [Interrupts]
         \<and> NoInterrupts \<notin> set body \<and> Interrupts \<notin> set body"
    using t by blast
  with buf len ev show ?thesis by blast
qed

text \<open>
  C6. For every \<open>dim_level\<close> (those of 0 to 100 among them), \<open>DeviceDim\<close> leaves the
  pair (275, 275) in the two slots of the on flag, a pair that is the line code of
  no logical bit, and the scaled level \<^verbatim>\<open>dim_level * (15/100)\<close> is 0, so that the four
  appended dim bits are those of the value 0.
\<close>

theorem DeviceDim_frame:
  assumes "low_pulse_array this = Some arr" "72 \<le> length arr"
  shows "\<exists>arr'. DeviceDim controller_id device_id dim_level this
                 = Inr (this\<lparr>low_pulse_array := Some arr'\<rparr>,
                        spec_transmission (led_pin_m this) (tx_pin_m this) (take 72 arr'))
           \<and> (arr' ! (kOnFlagOffset * 2), arr' ! (kOnFlagOffset * 2 + 1)) = (275, 275)
           \<and> spec_decode_pair (arr' ! (kOnFlagOffset * 2), arr' ! (kOnFlagOffset * 2 + 1)) = None
           \<and> (\<forall>v. line_code [v] \<noteq> [arr' ! (kOnFlagOffset * 2), arr' ! (kOnFlagOffset * 2 + 1)])
           \<and> take (2 * kDimLength) (drop (2 * kDimOffset) arr') = line_code (big_endian 4 0)
           \<and> dim_level * word_of_int ((15 :: int) div 100) = 0"
proof -
  define C where "C = line_code (itob (replicate 26 False) controller_id 26 @ [False])"
  define D where "D = line_code (itob (replicate 4 False) device_id 4)"
  define M where "M = line_code (big_endian 4 0)"
  define arr' where "arr' = C @ [275, 275] @ D @ M @ drop 72 arr"
  have lC: "length C = 54" by (simp add: C_def)
  have lD: "length D = 8" by (simp add: D_def)
  have lM: "length M = 8" by (simp add: M_def big_endian_def)
  have l72: "take 72 arr' = C @ [275, 275] @ D @ M"
    using lC lD lM by (simp add: arr'_def)
  have run: "DeviceDim controller_id device_id dim_level this
      = Inr (this\<lparr>low_pulse_array := Some arr'\<rparr>,
             spec_transmission (led_pin_m this) (tx_pin_m this) (take 72 arr'))"
    unfolding l72 unfolding arr'_def C_def D_def M_def
    by (simp add: DeviceDim_Some[OF assms] line_code_append)
  have n54: "arr' ! (kOnFlagOffset * 2) = 275"
    using lC by (simp add: arr'_def nth_append nexa_consts)
  have n55: "arr' ! (kOnFlagOffset * 2 + 1) = 275"
    using lC by (simp add: arr'_def nth_append nexa_consts)
  have pair: "(arr' ! (kOnFlagOffset * 2), arr' ! (kOnFlagOffset * 2 + 1)) = (275, 275)"
    by (simp only: n54 n55)
  have undecodable:
    "spec_decode_pair (arr' ! (kOnFlagOffset * 2), arr' ! (kOnFlagOffset * 2 + 1)) = None"
    by (simp only: pair) (simp add: spec_decode_pair_def)
  have no_bit: "\<forall>v. line_code [v] \<noteq> [arr' ! (kOnFlagOffset * 2), arr' ! (kOnFlagOffset * 2 + 1)]"
    by (simp only: n54 n55) (simp add: line_code_def)
  have dim: "take (2 * kDimLength) (drop (2 * kDimOffset) arr') = line_code (big_endian 4 0)"
    using lC lD lM by (simp add: arr'_def nexa_consts M_def[symmetric])
  have scaled: "dim_level * word_of_int ((15 :: int) div 100) = 0"
    by simp
  show ?thesis
    using run pair undecodable no_bit dim scaled by blast
qed

theorem DeviceDim_frame_witness:
  "low_pulse_array nexa_1_2 = Some (replicate 72 0) \<and> 72 \<le> length (replicate 72 (0 :: int))
   \<and> (\<exists>arr'. DeviceDim 1 3 100 nexa_1_2
                 = Inr (nexa_1_2\<lparr>low_pulse_array := Some arr'\<rparr>,
                        spec_transmission 0 1 (take 72 arr'))
           \<and> (arr' ! 54, arr' ! 55) = (275, 275)
           \<and> spec_decode_pair (arr' ! 54, arr' ! 55) = None
           \<and> (\<forall>v. line_code [v] \<noteq> [arr' ! 54, arr' ! 55])
           \<and> take 8 (drop 64 arr') = line_code [False, False, False, False])"
  using DeviceDim_frame[of nexa_1_2 "replicate 72 0" 1 3 100]
  by (simp add: nexa_1_2_eq nexa_consts big_endian_4_0)

text \<open>
  C7, as the specification states it, fails: a field value that does not fit is not
  reduced modulo the field width. For \<open>controller_id = 2 ^ 26 + 1\<close> the 26 bits are
  all 0, while the bits of \<open>(2 ^ 26 + 1) mod 2 ^ 26 = 1\<close> end in a 1.
\<close>

theorem wraparound_counterexample:
  "itob (replicate 26 False) 67108865 26 = replicate 26 False
   \<and> itob (replicate 26 False) (67108865 mod 2 ^ 26) 26 = replicate 25 False @ [True]
   \<and> itob (replicate 26 False) 67108865 26
       \<noteq> itob (replicate 26 False) (67108865 mod 2 ^ 26) 26"
proof -
  have wide: "itob (replicate 26 False) 67108865 26 = replicate 26 False"
    by (rule itob_too_wide) simp_all
  have "(67108865 :: 32 word) mod 2 ^ 26 = 1"
    by simp
  then have wrapped: "itob (replicate 26 False) (67108865 mod 2 ^ 26) 26 = replicate 25 False @ [True]"
    by (simp add: itob_fits big_endian_26_1)
  have "replicate 26 False \<noteq> replicate 25 False @ [True]"
    by (simp add: numeral_eq_Suc replicate_append_same[symmetric])
  with wide wrapped show ?thesis by simp
qed

text \<open>
  C7, amended. For a \<open>controller_id\<close> of \<open>2 ^ 26\<close> or more and for a \<open>device_id\<close> of 16
  or more, every bit of the encoded field is 0: no quotient
  \<^verbatim>\<open>integer / power2(length-1-i)\<close> is 1, so nothing is subtracted and no bit is set.
  The stores stay in the slots of the field, 0 to 51 and 56 to 63, and the other
  entries of the buffer keep their content. The scaled \<open>dim_level\<close> is 0 and is never
  out of range.
\<close>

theorem out_of_range_field_is_zero:
  assumes "low_pulse_array this = Some arr" "64 \<le> length arr"
  shows "(2 ^ 26 \<le> unat controller_id \<longrightarrow>
            SetControllerBits controller_id this
              = Inr (this\<lparr>low_pulse_array :=
                       Some (line_code (replicate 26 False) @ drop 52 arr)\<rparr>))
       \<and> (2 ^ 4 \<le> unat device_id \<longrightarrow>
            SetDeviceBits device_id this
              = Inr (this\<lparr>low_pulse_array :=
                       Some (take 56 arr @ line_code (replicate 4 False) @ drop 64 arr)\<rparr>))
       \<and> unat (dim_level * word_of_int ((15 :: int) div 100)) < 2 ^ 4"
proof (intro conjI impI)
  assume "2 ^ 26 \<le> unat controller_id"
  then have "itob (replicate 26 False) controller_id 26 = replicate 26 False"
    by (intro itob_too_wide) simp_all
  then show "SetControllerBits controller_id this
      = Inr (this\<lparr>low_pulse_array := Some (line_code (replicate 26 False) @ drop 52 arr)\<rparr>)"
    using SetControllerBits_Some[OF assms(1), of controller_id] assms(2) by simp
next
  assume "2 ^ 4 \<le> unat device_id"
  then have "itob (replicate 4 False) device_id 4 = replicate 4 False"
    by (intro itob_too_wide) simp_all
  then show "SetDeviceBits device_id this
      = Inr (this\<lparr>low_pulse_array :=
               Some (take 56 arr @ line_code (replicate 4 False) @ drop 64 arr)\<rparr>)"
    using SetDeviceBits_Some[OF assms, of device_id] by simp
next
  show "unat (dim_level * word_of_int ((15 :: int) div 100)) < 2 ^ 4"
    by simp
qed

theorem out_of_range_field_is_zero_witness:
  "low_pulse_array nexa_1_2 = Some (replicate 72 0) \<and> 64 \<le> length (replicate 72 (0 :: int))
   \<and> 2 ^ 26 \<le> unat (67108865 :: 32 word)
   \<and> SetControllerBits 67108865 nexa_1_2
       = Inr (nexa_1_2\<lparr>low_pulse_array :=
                Some (line_code (replicate 26 False) @ replicate 20 0)\<rparr>)
   \<and> 2 ^ 4 \<le> unat (17 :: 32 word)
   \<and> SetDeviceBits 17 nexa_1_2
       = Inr (nexa_1_2\<lparr>low_pulse_array :=
                Some (replicate 56 0 @ line_code (replicate 4 False) @ replicate 8 0)\<rparr>)"
  using out_of_range_field_is_zero[of nexa_1_2 "replicate 72 0" 67108865 17 0]
  by (simp add: nexa_1_2_eq)

text \<open>
  C9. The two-argument constructor allocates 72 entries. On a buffer of at least 64
  entries, and so on one of exactly 64, the four on/off commands run without an
  access outside the buffer and leave the entries from 64 on untouched: they touch
  indices 0 to 63 only. On a buffer of at least 72 entries \<open>DeviceDim\<close> runs without an
  access outside the buffer: it touches indices 0 to 71 only.
\<close>

theorem buffer_accesses_in_bounds:
  "low_pulse_array (fst (NexaCtrl2 True this0 tx_pin rx_pin)) = Some (replicate 72 0)
   \<and> (low_pulse_array this = Some arr \<longrightarrow> 64 \<le> length arr \<longrightarrow>
         in_bounds_run 64 arr (DeviceOn controller_id device_id this)
       \<and> in_bounds_run 64 arr (DeviceOff controller_id device_id this)
       \<and> in_bounds_run 64 arr (GroupOn controller_id this)
       \<and> in_bounds_run 64 arr (GroupOff controller_id this))
   \<and> (low_pulse_array this = Some arr \<longrightarrow> 72 \<le> length arr \<longrightarrow>
         in_bounds_run 72 arr (DeviceDim controller_id device_id dim_level this))"
proof (intro conjI impI)
  show "low_pulse_array (fst (NexaCtrl2 True this0 tx_pin rx_pin)) = Some (replicate 72 0)"
    by (simp add: NexaCtrl2_def calloc_int_def nexa_consts)
next
  assume a: "low_pulse_array this = Some arr" and n: "64 \<le> length arr"
  show "in_bounds_run 64 arr (DeviceOn controller_id device_id this)"
    by (rule in_bounds_runI[OF DeviceOn_Some[OF a n]]) (simp_all add: n)
  show "in_bounds_run 64 arr (DeviceOff controller_id device_id this)"
    by (rule in_bounds_runI[OF DeviceOff_Some[OF a n]]) (simp_all add: n)
  show "in_bounds_run 64 arr (GroupOn controller_id this)"
    by (rule in_bounds_runI[OF GroupOn_Some[OF a n]]) (simp_all add: n big_endian_def)
  show "in_bounds_run 64 arr (GroupOff controller_id this)"
    by (rule in_bounds_runI[OF GroupOff_Some[OF a n]]) (simp_all add: n big_endian_def)
next
  assume a: "low_pulse_array this = Some arr" and n: "72 \<le> length arr"
  have "DeviceDim controller_id device_id dim_level this
     = Inr (this\<lparr>low_pulse_array :=
              Some ((line_code (itob (replicate 26 False) controller_id 26 @ [False])
                    @ [275, 275]
                    @ line_code (itob (replicate 4 False) device_id 4 @ big_endian 4 0))
                    @ drop 72 arr)\<rparr>,
            spec_transmission (led_pin_m this) (tx_pin_m this)
              (line_code (itob (replicate 26 False) controller_id 26 @ [False])
               @ [275, 275]
               @ line_code (itob (replicate 4 False) device_id 4 @ big_endian 4 0)))"
    by (simp add: DeviceDim_Some[OF a n])
  then show "in_bounds_run 72 arr (DeviceDim controller_id device_id dim_level this)"
    by (rule in_bounds_runI) (simp_all add: n big_endian_def)
qed

theorem buffer_accesses_in_bounds_witness:
  "low_pulse_array (fst (NexaCtrl2 True static_storage 1 2)) = Some (replicate 72 0)
   \<and> low_pulse_array nexa_1_2 = Some (replicate 72 0)
   \<and> 64 \<le> length (replicate 72 (0 :: int)) \<and> 72 \<le> length (replicate 72 (0 :: int))
   \<and> in_bounds_run 64 (replicate 72 0) (DeviceOn 1 3 nexa_1_2)
   \<and> in_bounds_run 64 (replicate 72 0) (DeviceOff 1 3 nexa_1_2)
   \<and> in_bounds_run 64 (replicate 72 0) (GroupOn 1 nexa_1_2)
   \<and> in_bounds_run 64 (replicate 72 0) (GroupOff 1 nexa_1_2)
   \<and> in_bounds_run 72 (replicate 72 0) (DeviceDim 1 3 100 nexa_1_2)"
  using buffer_accesses_in_bounds[of static_storage 1 2 nexa_1_2 "replicate 72 0" 1 3 100]
  by (simp add: nexa_1_2_eq)

text \<open>
  C10. The three-argument constructor assigns \<open>led_pin_\<close> and no other member of the
  object under construction: \<open>tx_pin_\<close>, \<open>rx_pin_\<close> and \<open>low_pulse_array\<close> keep what
  the storage held before. The platform calls are the \<open>pinMode\<close> of the indicator pin
  followed by those of constructing the temporary, which is discarded together with
  the buffer allocated for it. When the storage held no buffer, the object has none,
  and each of the five commands makes an undefined access at its first store.
\<close>

theorem NexaCtrl3_object_not_constructed:
  "fst (NexaCtrl3 alloc_ok this temp tx_pin rx_pin led_pin) = this\<lparr>led_pin_m := led_pin\<rparr>
   \<and> tx_pin_m (fst (NexaCtrl3 alloc_ok this temp tx_pin rx_pin led_pin)) = tx_pin_m this
   \<and> rx_pin_m (fst (NexaCtrl3 alloc_ok this temp tx_pin rx_pin led_pin)) = rx_pin_m this
   \<and> low_pulse_array (fst (NexaCtrl3 alloc_ok this temp tx_pin rx_pin led_pin))
       = low_pulse_array this
   \<and> snd (NexaCtrl3 alloc_ok this temp tx_pin rx_pin led_pin)
       = PinMode led_pin OUTPUT # snd (NexaCtrl2 alloc_ok temp tx_pin rx_pin)
   \<and> (low_pulse_array this = None \<longrightarrow>
        DeviceOn controller_id device_id (fst (NexaCtrl3 alloc_ok this temp tx_pin rx_pin led_pin))
          = Inl NullBuffer
      \<and> DeviceOff controller_id device_id (fst (NexaCtrl3 alloc_ok this temp tx_pin rx_pin led_pin))
          = Inl NullBuffer
      \<and> DeviceDim controller_id device_id dim_level
           (fst (NexaCtrl3 alloc_ok this temp tx_pin rx_pin led_pin))
          = Inl NullBuffer
      \<and> GroupOn controller_id (fst (NexaCtrl3 alloc_ok this temp tx_pin rx_pin led_pin))
          = Inl NullBuffer
      \<and> GroupOff controller_id (fst (NexaCtrl3 alloc_ok this temp tx_pin rx_pin led_pin))
          = Inl NullBuffer)"
proof -
  have obj: "fst (NexaCtrl3 alloc_ok this temp tx_pin rx_pin led_pin) = this\<lparr>led_pin_m := led_pin\<rparr>"
    by (simp add: NexaCtrl3_def NexaCtrl2_def)
  have ev: "snd (NexaCtrl3 alloc_ok this temp tx_pin rx_pin led_pin)
       = PinMode led_pin OUTPUT # snd (NexaCtrl2 alloc_ok temp tx_pin rx_pin)"
    by (simp add: NexaCtrl3_def NexaCtrl2_def)
  show ?thesis
    unfolding obj ev by (simp add: commands_null)
qed

theorem NexaCtrl3_object_not_constructed_witness:
  "low_pulse_array static_storage = None
   \<and> fst (NexaCtrl3 True static_storage static_storage 1 2 3)
       = \<lparr>tx_pin_m = 0, rx_pin_m = 0, led_pin_m = 3, low_pulse_array = None\<rparr>
   \<and> snd (NexaCtrl3 True static_storage static_storage 1 2 3)
       = [PinMode 3 OUTPUT, PinMode 1 OUTPUT, PinMode 2 INPUT]
   \<and> DeviceOn 1 3 (fst (NexaCtrl3 True static_storage static_storage 1 2 3)) = Inl NullBuffer
   \<and> DeviceOff 1 3 (fst (NexaCtrl3 True static_storage static_storage 1 2 3)) = Inl NullBuffer
   \<and> DeviceDim 1 3 100 (fst (NexaCtrl3 True static_storage static_storage 1 2 3)) = Inl NullBuffer
   \<and> GroupOn 1 (fst (NexaCtrl3 True static_storage static_storage 1 2 3)) = Inl NullBuffer
   \<and> GroupOff 1 (fst (NexaCtrl3 True static_storage static_storage 1 2 3)) = Inl NullBuffer"
proof -
  note t = NexaCtrl3_object_not_constructed[of True static_storage static_storage 1 2 3 1 3 100]
  have none: "low_pulse_array static_storage = None"
    by (simp add: static_storage_def)
  have "fst (NexaCtrl3 True static_storage static_storage 1 2 3) = static_storage\<lparr>led_pin_m := 3\<rparr>"
    using t by blast
  then have obj: "fst (NexaCtrl3 True static_storage static_storage 1 2 3)
       = \<lparr>tx_pin_m = 0, rx_pin_m = 0, led_pin_m = 3, low_pulse_array = None\<rparr>"
    by (simp add: static_storage_def)
  have "snd (NexaCtrl3 True static_storage static_storage 1 2 3)
       = PinMode 3 OUTPUT # snd (NexaCtrl2 True static_storage 1 2)"
    using t by blast
  then have ev: "snd (NexaCtrl3 True static_storage static_storage 1 2 3)
       = [PinMode 3 OUTPUT, PinMode 1 OUTPUT, PinMode 2 INPUT]"
    by (simp add: NexaCtrl2_def)
  show ?thesis
    using none obj ev t by blast
qed

end
